theory Spec2Isabelle
  imports Main "HOL-Library.Word"
begin

section \<open>The TamaPortal subsystem of src/main.cpp\<close>

text \<open>
  The development embeds the proximity-messaging code of \<^verbatim>\<open>src/main.cpp\<close>
  (the \<^verbatim>\<open>M5STICKC_PLUS2\<close> build): the globals of lines 55-75, \<^verbatim>\<open>hal_handler\<close>,
  \<^verbatim>\<open>initTamaPortal\<close>, \<^verbatim>\<open>handleTamaPortal\<close>, \<^verbatim>\<open>scanAndAttackPortals\<close>,
  \<^verbatim>\<open>sendFriendlyMessage\<close>, \<^verbatim>\<open>createTamaPortalHotspot\<close> with its three request
  handlers, and the message overlay at the end of \<^verbatim>\<open>displayTama\<close>.

  The globals and function-local statics become one record that every function takes and
  returns. What the code asks of the radio, the HTTP client and the servers is appended to
  a trace, in program order. What the outside world answers (the clock, the scan result,
  whether a join succeeds, response codes, random numbers, incoming requests) is an
  argument. Serial logging, LCD drawing and the pacing \<^verbatim>\<open>delay\<close> calls change none of
  the modelled variables and are left out.
\<close>

subsection \<open>Time and constants\<close>

text \<open>\<^verbatim>\<open>unsigned long\<close> is 32 bits on the ESP32: \<^verbatim>\<open>millis()\<close> differences wrap.\<close>

type_synonym millis = "32 word"

definition PORTAL_SCAN_INTERVAL :: millis where
  "PORTAL_SCAN_INTERVAL = 30000"

definition MESSAGE_DISPLAY_DURATION :: millis where
  "MESSAGE_DISPLAY_DURATION = 5000"

subsection \<open>Arduino \<^verbatim>\<open>String\<close> operations used by the source\<close>

text \<open>
  \<^verbatim>\<open>String::replace(find, replace)\<close> for the one-character patterns the source passes:
  every occurrence of the character is replaced. A \<^verbatim>\<open>String\<close> counts bytes, as
  \<^typ>\<open>string\<close> does.
\<close>

fun String_replace :: "char \<Rightarrow> string \<Rightarrow> string \<Rightarrow> string" where
  "String_replace f r [] = []"
| "String_replace f r (c # cs) =
     (if c = f then r @ String_replace f r cs else c # String_replace f r cs)"

text \<open>
  \<^verbatim>\<open>String::substring(left, right)\<close>: the bounds are swapped when \<open>left > right\<close>, a
  start at or past the end gives the empty string, and the end is clipped to the length.
\<close>

definition substring :: "nat \<Rightarrow> nat \<Rightarrow> string \<Rightarrow> string" where
  "substring left right s =
     (let l = (if left > right then right else left);
          r = (if left > right then left else right)
      in if l \<ge> length s then []
         else take ((if r > length s then length s else r) - l) (drop l s))"

text \<open>\<^verbatim>\<open>random(howsmall, howbig)\<close> of the Arduino core, from a raw random number.\<close>

definition random_range :: "nat \<Rightarrow> nat \<Rightarrow> nat \<Rightarrow> nat" where
  "random_range howsmall howbig raw =
     (if howsmall \<ge> howbig then howsmall else raw mod (howbig - howsmall) + howsmall)"

text \<open>\<^verbatim>\<open>String(n)\<close>: the decimal digits of a number.\<close>

fun String_of_nat :: "nat \<Rightarrow> string" where
  "String_of_nat n =
     (if n < 10 then [char_of (48 + n)]
      else String_of_nat (n div 10) @ [char_of (48 + n mod 10)])"

declare String_of_nat.simps [simp del]

subsection \<open>The radio, the servers and the trace\<close>

datatype wifi_mode = WIFI_OFF | WIFI_STA | WIFI_AP | WIFI_AP_STA

datatype wifi_auth = WIFI_AUTH_OPEN | WIFI_AUTH_SECURED

datatype http_method = HTTP_GET | HTTP_POST | HTTP_OTHER

text \<open>One constructor per call that leaves the program.\<close>

datatype effect =
    ScanNetworks
  | ScanDelete
  | WiFiMode wifi_mode
  | WiFiBegin string
  | WiFiDisconnect
  | HttpPost string nat string string int
  | SoftAPConfig
  | SoftAP string
  | DnsStart nat string
  | DnsReply string
  | ServerBegin nat
  | ServerSend nat string
  | ServerRedirect string

text \<open>
  The globals of lines 55-75, the statics \<^verbatim>\<open>hotspotCreated\<close>
  (\<^verbatim>\<open>createTamaPortalHotspot\<close>), \<^verbatim>\<open>time_bypass_complete\<close>, \<^verbatim>\<open>time_bypass_start\<close>
  and \<^verbatim>\<open>prev_clean_selected\<close> (\<^verbatim>\<open>hal_handler\<close>), and the state of the radio.
  \<open>tamaPortalServer\<close> and \<open>tamaDnsServer\<close> are pointers: \<open>None\<close> is \<^verbatim>\<open>nullptr\<close>,
  \<open>Some\<close> holds what the object was started with.
\<close>

record portal =
  tamaportal_active :: bool
  last_portal_scan :: millis
  received_message :: string
  message_display_time :: millis
  hotspotCreated :: bool
  tamaPortalServer :: "nat option"
  tamaDnsServer :: "(nat \<times> string) option"
  time_bypass_complete :: bool
  time_bypass_start :: millis
  prev_clean_selected :: bool
  wifi_mode :: wifi_mode
  softAP_ssid :: "string option"
  trace :: "effect list"

definition init_state :: portal where
  "init_state =
     \<lparr> tamaportal_active = False, last_portal_scan = 0, received_message = [],
       message_display_time = 0, hotspotCreated = False, tamaPortalServer = None,
       tamaDnsServer = None, time_bypass_complete = False, time_bypass_start = 0,
       prev_clean_selected = False, wifi_mode = WIFI_OFF, softAP_ssid = None,
       trace = [] \<rparr>"

definition emit :: "effect \<Rightarrow> portal \<Rightarrow> portal" where
  "emit x s = s\<lparr>trace := trace s @ [x]\<rparr>"

subsection \<open>The HTTP server's handlers\<close>

record http_request =
  req_method :: http_method
  req_uri :: string
  req_args :: "(string \<times> string) list"

text \<open>\<^verbatim>\<open>WebServer::arg(name)\<close>: the value of the first argument of that name, else empty.\<close>

definition arg :: "http_request \<Rightarrow> string \<Rightarrow> string" where
  "arg req name = (case map_of (req_args req) name of Some v \<Rightarrow> v | None \<Rightarrow> [])"

text \<open>The handler registered for \<^verbatim>\<open>POST /message\<close> (lines 889-911).\<close>

definition handle_message :: "millis \<Rightarrow> http_request \<Rightarrow> portal \<Rightarrow> portal" where
  "handle_message now req s =
     (let message = arg req ''msg'';
          message = String_replace CHR ''<'' ''&lt;'' message;
          message = String_replace CHR ''>'' ''&gt;'' message;
          message = substring 0 100 message
      in emit (ServerSend 200 ''text/html'')
           (s\<lparr>received_message := message, message_display_time := now\<rparr>))"

text \<open>
  \<^verbatim>\<open>handleClient\<close> with the three routes in registration order: \<^verbatim>\<open>/\<close> for any method,
  \<^verbatim>\<open>/message\<close> for POST, and the not-found handler, which redirects to \<^verbatim>\<open>/\<close>.
\<close>

definition handleClient :: "millis \<Rightarrow> http_request option \<Rightarrow> portal \<Rightarrow> portal" where
  "handleClient now pending s =
     (case pending of
        None \<Rightarrow> s
      | Some req \<Rightarrow>
          if req_uri req = ''/'' then emit (ServerSend 200 ''text/html'') s
          else if req_uri req = ''/message'' \<and> req_method req = HTTP_POST
          then handle_message now req s
          else emit (ServerSend 302 ''text/plain'') (emit (ServerRedirect ''/'') s))"

text \<open>\<^verbatim>\<open>DNSServer::processNextRequest\<close>: every pending query is answered with the own address.\<close>

definition processNextRequest :: "string option \<Rightarrow> portal \<Rightarrow> portal" where
  "processNextRequest query s =
     (case query of None \<Rightarrow> s | Some name \<Rightarrow> emit (DnsReply name) s)"

subsection \<open>The message overlay of \<^verbatim>\<open>displayTama\<close> (lines 1016-1044)\<close>

text \<open>
  The result is what the overlay shows, \<open>Some (line1, line2)\<close>, or \<open>None\<close> when no
  overlay is drawn, and the state after the call.
\<close>

definition displayTama :: "millis \<Rightarrow> portal \<Rightarrow> (string \<times> string) option \<times> portal" where
  "displayTama now s =
     (if length (received_message s) > 0
         \<and> now - message_display_time s < MESSAGE_DISPLAY_DURATION
      then (Some (substring 0 30 (received_message s), substring 30 60 (received_message s)), s)
      else if length (received_message s) > 0
      then (None, s\<lparr>received_message := []\<rparr>)
      else (None, s))"

subsection \<open>The radio calls\<close>

text \<open>
  The calls of the ESP32 \<^verbatim>\<open>WiFi\<close> object that the source makes. \<^verbatim>\<open>WiFi.mode\<close> sets
  the mode as given, so that leaving access-point mode takes the access point down;
  \<^verbatim>\<open>scanNetworks\<close> and \<^verbatim>\<open>begin\<close> switch the station interface on, \<^verbatim>\<open>softAP\<close> the
  access-point interface; \<^verbatim>\<open>disconnect\<close> leaves the mode as it is.
\<close>

definition enableSTA :: "portal \<Rightarrow> portal" where
  "enableSTA s =
     s\<lparr>wifi_mode := (case wifi_mode s of
                        WIFI_OFF \<Rightarrow> WIFI_STA | WIFI_AP \<Rightarrow> WIFI_AP_STA | m \<Rightarrow> m)\<rparr>"

definition enableAP :: "portal \<Rightarrow> portal" where
  "enableAP s =
     s\<lparr>wifi_mode := (case wifi_mode s of
                        WIFI_OFF \<Rightarrow> WIFI_AP | WIFI_STA \<Rightarrow> WIFI_AP_STA | m \<Rightarrow> m)\<rparr>"

definition WiFi_mode :: "wifi_mode \<Rightarrow> portal \<Rightarrow> portal" where
  "WiFi_mode m s =
     emit (WiFiMode m)
       (s\<lparr>wifi_mode := m,
          softAP_ssid := (if m = WIFI_AP \<or> m = WIFI_AP_STA then softAP_ssid s else None)\<rparr>)"

definition WiFi_softAP :: "string \<Rightarrow> portal \<Rightarrow> portal" where
  "WiFi_softAP name s = emit (SoftAP name) ((enableAP s)\<lparr>softAP_ssid := Some name\<rparr>)"

definition WiFi_begin :: "string \<Rightarrow> portal \<Rightarrow> portal" where
  "WiFi_begin name s = emit (WiFiBegin name) (enableSTA s)"

definition WiFi_scanNetworks :: "portal \<Rightarrow> portal" where
  "WiFi_scanNetworks s = emit ScanNetworks (enableSTA s)"

definition WiFi_disconnect :: "portal \<Rightarrow> portal" where
  "WiFi_disconnect s = emit WiFiDisconnect s"

subsection \<open>What the surroundings answer\<close>

text \<open>
  A scanned network, with what happens when the device tries it: after how many
  milliseconds \<^verbatim>\<open>WiFi.status()\<close> turns to \<^verbatim>\<open>WL_CONNECTED\<close> (\<open>None\<close>: never), the
  gateway's address, the response code of each URL, and the raw random number behind the
  choice of greeting.
\<close>

record network =
  net_ssid :: string
  net_auth :: wifi_auth
  net_connect_after :: "nat option"
  net_gateway :: string
  net_response :: "string \<Rightarrow> int"
  net_random :: nat

text \<open>
  One scan: \<open>None\<close> when \<^verbatim>\<open>WiFi.scanNetworks()\<close> fails (it then returns a negative
  number), else the networks found; and the raw random number behind the hotspot's name.
\<close>

record scan_env =
  scan_result :: "network list option"
  hotspot_random :: nat

definition scanNetworks :: "scan_env \<Rightarrow> int" where
  "scanNetworks e = (case scan_result e of None \<Rightarrow> - 2 | Some ns \<Rightarrow> int (length ns))"

definition scanned :: "scan_env \<Rightarrow> network list" where
  "scanned e = (case scan_result e of None \<Rightarrow> [] | Some ns \<Rightarrow> ns)"

subsection \<open>\<^verbatim>\<open>sendFriendlyMessage\<close> (lines 796-848)\<close>

text \<open>\<^verbatim>\<open>WiFi.status() == WL_CONNECTED\<close>, \<open>t\<close> milliseconds after \<^verbatim>\<open>WiFi.begin\<close>.\<close>

definition WiFi_connected :: "nat option \<Rightarrow> nat \<Rightarrow> bool" where
  "WiFi_connected c t = (case c of None \<Rightarrow> False | Some d \<Rightarrow> d \<le> t)"

text \<open>
  The wait loop \<^verbatim>\<open>while (WiFi.status() != WL_CONNECTED && millis() - startTime < 5000)
  delay(100);\<close> on a clock that only \<^verbatim>\<open>delay\<close> advances: \<open>t\<close> is the time since
  \<^verbatim>\<open>startTime\<close>, and the result is its value when the loop is left.
\<close>

function connect_wait :: "nat option \<Rightarrow> nat \<Rightarrow> nat" where
  "connect_wait c t =
     (if \<not> WiFi_connected c t \<and> t < 5000 then connect_wait c (t + 100) else t)"
  by pat_completeness auto
termination
  by (relation "measure (\<lambda>(c, t). 5000 - t)") auto

declare connect_wait.simps [simp del]

definition friendlyMessages :: "string list" where
  "friendlyMessages =
     [''Hello from my Tamagotchi! '' @ [CHR 0xC3, CHR 0xB0, CHR 0xC5, CHR 0xB8, CHR 0xC2, CHR 0xA3],
      ''Virtual pet owner nearby! '' @ [CHR 0xC3, CHR 0xA2, CHR 0xC5, CHR 0x93, CHR 0xC2, CHR 0xA8],
      ''My Tamagotchi says hi! '' @
        [CHR 0xC3, CHR 0xB0, CHR 0xC5, CHR 0xB8, CHR 0xE2, CHR 0x80, CHR 0x98, CHR 0xE2, CHR 0x80, CHR 0xB9],
      ''Remember to feed your pets! '' @
        [CHR 0xC3, CHR 0xB0, CHR 0xC5, CHR 0xB8, CHR 0xE2, CHR 0x80, CHR 0x99, CHR 0xE2, CHR 0x80, CHR 0x93],
      ''90s nostalgia activated! '' @
        [CHR 0xC3, CHR 0xB0, CHR 0xC5, CHR 0xB8, CHR 0xC5, CHR 0xBD, CHR 0xC2, CHR 0xAE],
      ''Pixel pets forever! '' @
        [CHR 0xC3, CHR 0xB0, CHR 0xC5, CHR 0xB8, CHR 0xC5, CHR 0xBD, CHR 0xC2, CHR 0xA8]]"

definition endpoints :: "string list" where
  "endpoints = [''/post'', ''/'', ''/login'', ''/auth'']"

text \<open>The body of \<^verbatim>\<open>for (String endpoint : endpoints)\<close>, once per element, in order.\<close>

fun post_endpoints :: "network \<Rightarrow> string \<Rightarrow> string \<Rightarrow> string list \<Rightarrow> portal \<Rightarrow> portal" where
  "post_endpoints nw message1 message2 [] s = s"
| "post_endpoints nw message1 message2 (endpoint # rest) s =
     (let url = ''http://'' @ net_gateway nw @ endpoint;
          friendlyData =
            ''email='' @ message1 @ ''&password='' @ message2 @ ''&username='' @ message1;
          responseCode = net_response nw url
      in post_endpoints nw message1 message2 rest
           (emit (HttpPost url 2000 ''application/x-www-form-urlencoded'' friendlyData
                    responseCode) s))"

definition sendFriendlyMessage :: "network \<Rightarrow> portal \<Rightarrow> portal" where
  "sendFriendlyMessage nw s =
     (let s1 = WiFi_begin (net_ssid nw) s;
          t = connect_wait (net_connect_after nw) 0
      in if WiFi_connected (net_connect_after nw) t
         then
           let messageIndex = random_range 0 6 (net_random nw);
               message1 = friendlyMessages ! messageIndex;
               message2 = friendlyMessages ! ((messageIndex + 1) mod 6)
           in WiFi_disconnect (post_endpoints nw message1 message2 endpoints s1)
         else s1)"

subsection \<open>\<^verbatim>\<open>createTamaPortalHotspot\<close> (lines 850-923)\<close>

definition createTamaPortalHotspot :: "nat \<Rightarrow> portal \<Rightarrow> portal" where
  "createTamaPortalHotspot raw s =
     (if hotspotCreated s then s
      else
        let s1 = WiFi_mode WIFI_AP s;
            s2 = emit SoftAPConfig s1;
            s3 = WiFi_softAP (''TamaPortal-'' @ String_of_nat (random_range 1000 9999 raw)) s2;
            s4 = emit (DnsStart 53 ''*'') (s3\<lparr>tamaDnsServer := Some (53, ''*'')\<rparr>);
            s5 = emit (ServerBegin 80) (s4\<lparr>tamaPortalServer := Some 80\<rparr>)
        in s5\<lparr>hotspotCreated := True\<rparr>)"

subsection \<open>\<^verbatim>\<open>scanAndAttackPortals\<close> (lines 762-794)\<close>

text \<open>The loop over the scanned networks, carrying \<^verbatim>\<open>foundOpenNetwork\<close>.\<close>

fun scan_loop :: "network list \<Rightarrow> bool \<Rightarrow> portal \<Rightarrow> bool \<times> portal" where
  "scan_loop [] foundOpenNetwork s = (foundOpenNetwork, s)"
| "scan_loop (nw # rest) foundOpenNetwork s =
     (if net_auth nw = WIFI_AUTH_OPEN
      then scan_loop rest True (sendFriendlyMessage nw s)
      else scan_loop rest foundOpenNetwork s)"

definition scanAndAttackPortals :: "scan_env \<Rightarrow> portal \<Rightarrow> portal" where
  "scanAndAttackPortals e s =
     (let s0 = WiFi_scanNetworks s;
          n = scanNetworks e
      in if n = 0 then createTamaPortalHotspot (hotspot_random e) s0
         else
           let (foundOpenNetwork, s1) = scan_loop (take (nat n) (scanned e)) False s0;
               s2 = (if \<not> foundOpenNetwork
                     then createTamaPortalHotspot (hotspot_random e) s1 else s1)
           in emit ScanDelete s2)"

subsection \<open>\<^verbatim>\<open>initTamaPortal\<close> (lines 713-745) and \<^verbatim>\<open>handleTamaPortal\<close> (lines 747-760)\<close>

definition initTamaPortal :: "scan_env \<Rightarrow> portal \<Rightarrow> portal" where
  "initTamaPortal e s =
     (if tamaportal_active s
      then WiFi_disconnect (WiFi_mode WIFI_STA (s\<lparr>tamaportal_active := False\<rparr>))
      else scanAndAttackPortals e (s\<lparr>tamaportal_active := True, last_portal_scan := 0\<rparr>))"

definition handleTamaPortal :: "scan_env \<Rightarrow> millis \<Rightarrow> portal \<Rightarrow> portal" where
  "handleTamaPortal e now s =
     (if \<not> tamaportal_active s then s
      else if now - last_portal_scan s > PORTAL_SCAN_INTERVAL
      then (scanAndAttackPortals e s)\<lparr>last_portal_scan := now\<rparr>
      else s)"

subsection \<open>\<^verbatim>\<open>hal_handler\<close>, \<^verbatim>\<open>M5STICKC_PLUS2\<close> branch (lines 282-467)\<close>

text \<open>
  What one call of the handler meets: the clock as the handler and \<^verbatim>\<open>handleTamaPortal\<close>
  read it, the clock as the request handler reads it later in the same call (a scan blocks
  in between), \<^verbatim>\<open>icon_buffer[4]\<close>, the scan that would run, and the DNS query and HTTP
  request that are pending.
\<close>

record handler_env =
  env_now :: millis
  env_now_request :: millis
  env_clean :: bool
  env_scan :: scan_env
  env_dns_query :: "string option"
  env_request :: "http_request option"

text \<open>
  During the automatic time-setup bypass the handler presses emulator buttons and returns
  before anything else; the four button phases (below 1000, 2000, 3000 and 3500 ms) differ
  only in the button they drive. After it, the handler maps the buttons (menu page,
  effects and sound toggles, the art animation: none touches a Portal variable, and the
  double-tap handler that called \<^verbatim>\<open>initTamaPortal\<close> is inside a comment, lines 378-398),
  then runs \<^verbatim>\<open>handleTamaPortal\<close>, serves DNS and HTTP when the Portal is active and
  the server exists, and clears the message on a rising edge of the Clean icon.
\<close>

definition hal_handler :: "handler_env \<Rightarrow> portal \<Rightarrow> portal" where
  "hal_handler e s =
     (if \<not> time_bypass_complete s
      then
        let s1 = (if time_bypass_start s = 0 then s\<lparr>time_bypass_start := env_now e\<rparr> else s);
            elapsed = env_now e - time_bypass_start s1
        in if elapsed < 3500 then s1 else s1\<lparr>time_bypass_complete := True\<rparr>
      else
        let s1 = handleTamaPortal (env_scan e) (env_now e) s;
            s2 = (if tamaportal_active s1 \<and> tamaPortalServer s1 \<noteq> None
                  then handleClient (env_now_request e) (env_request e)
                         (processNextRequest (env_dns_query e) s1)
                  else s1);
            s3 = (if env_clean e \<and> \<not> prev_clean_selected s2
                       \<and> length (received_message s2) > 0
                  then s2\<lparr>received_message := []\<rparr> else s2)
        in s3\<lparr>prev_clean_selected := env_clean e\<rparr>)"

subsection \<open>Executions\<close>

text \<open>
  After \<^verbatim>\<open>setup\<close>, which touches no Portal variable, the program is \<^verbatim>\<open>loop\<close> calling
  the emulator core, and the core calls back into \<^verbatim>\<open>hal_handler\<close> and, through
  \<^verbatim>\<open>hal_update_screen\<close>, into \<^verbatim>\<open>displayTama\<close>. An execution of the compiled program is
  a sequence of such callbacks from \<open>init_state\<close>.
\<close>

datatype callback = Handler handler_env | UpdateScreen millis

fun callback_step :: "callback \<Rightarrow> portal \<Rightarrow> portal" where
  "callback_step (Handler e) s = hal_handler e s"
| "callback_step (UpdateScreen now) s = snd (displayTama now s)"

fun run :: "callback list \<Rightarrow> portal \<Rightarrow> portal" where
  "run [] s = s"
| "run (c # cs) s = run cs (callback_step c s)"

text \<open>
  Every operation of the subsystem, for properties that hold whichever way they are
  combined: this includes \<^verbatim>\<open>initTamaPortal\<close>, which the compiled program never calls.
\<close>

datatype operation =
    InitTamaPortal scan_env
  | HandleTamaPortal scan_env millis
  | ScanAndAttackPortals scan_env
  | SendFriendlyMessage network
  | CreateTamaPortalHotspot nat
  | HandleClient millis "http_request option"
  | ProcessNextRequest "string option"
  | HalHandler handler_env
  | DisplayTama millis

fun perform :: "operation \<Rightarrow> portal \<Rightarrow> portal" where
  "perform (InitTamaPortal e) s = initTamaPortal e s"
| "perform (HandleTamaPortal e now) s = handleTamaPortal e now s"
| "perform (ScanAndAttackPortals e) s = scanAndAttackPortals e s"
| "perform (SendFriendlyMessage nw) s = sendFriendlyMessage nw s"
| "perform (CreateTamaPortalHotspot raw) s = createTamaPortalHotspot raw s"
| "perform (HandleClient now pending) s = handleClient now pending s"
| "perform (ProcessNextRequest query) s = processNextRequest query s"
| "perform (HalHandler e) s = hal_handler e s"
| "perform (DisplayTama now) s = snd (displayTama now s)"

fun perform_all :: "operation list \<Rightarrow> portal \<Rightarrow> portal" where
  "perform_all [] s = s"
| "perform_all (x # xs) s = perform_all xs (perform x s)"

subsection \<open>Notions the properties are stated with\<close>

text \<open>
  Escaping as one pass over the text, and the two orders in which truncation and escaping
  can be composed: the first follows the wording of the message store's contract, the
  second is the order compared with the handler.
\<close>

definition html_escape :: "char \<Rightarrow> string" where
  "html_escape c =
     (if c = CHR ''<'' then ''&lt;'' else if c = CHR ''>'' then ''&gt;'' else [c])"

definition escape :: "string \<Rightarrow> string" where
  "escape s = concat (map html_escape s)"

definition truncate_then_escape :: "string \<Rightarrow> string" where
  "truncate_then_escape rawText = escape (take 100 rawText)"

definition escape_then_truncate :: "string \<Rightarrow> string" where
  "escape_then_truncate rawText = take 100 (escape rawText)"

text \<open>A scan cycle ran between two states: the trace grew, starting with the scan.\<close>

definition scan_cycle_ran :: "portal \<Rightarrow> portal \<Rightarrow> bool" where
  "scan_cycle_ran s s' = (take 1 (drop (length (trace s)) (trace s')) = [ScanNetworks])"

text \<open>No access point, no DNS resolver object and no HTTP server object.\<close>

definition host_torn_down :: "portal \<Rightarrow> bool" where
  "host_torn_down s =
     (softAP_ssid s = None \<and> tamaDnsServer s = None \<and> tamaPortalServer s = None)"

definition no_open :: "network list \<Rightarrow> bool" where
  "no_open ns = list_all (\<lambda>nw. net_auth nw \<noteq> WIFI_AUTH_OPEN) ns"

text \<open>The Portal has never done anything.\<close>

definition quiescent :: "portal \<Rightarrow> bool" where
  "quiescent s =
     (\<not> tamaportal_active s \<and> \<not> hotspotCreated s \<and> tamaPortalServer s = None
      \<and> tamaDnsServer s = None \<and> trace s = [])"

subsection \<open>Concrete surroundings\<close>

definition empty_scan :: scan_env where
  "empty_scan = \<lparr>scan_result = Some [], hotspot_random = 4242\<rparr>"

definition cafe :: network where
  "cafe = \<lparr>net_ssid = ''CafeWifi'', net_auth = WIFI_AUTH_OPEN, net_connect_after = Some 300,
            net_gateway = ''192.168.1.1'', net_response = (\<lambda>url. 404), net_random = 3\<rparr>"

definition cafe_out_of_reach :: network where
  "cafe_out_of_reach = cafe\<lparr>net_connect_after := None\<rparr>"

definition cafe_scan :: "network \<Rightarrow> scan_env" where
  "cafe_scan nw = \<lparr>scan_result = Some [nw], hotspot_random = 4242\<rparr>"

text \<open>The state after an activation whose scan found nothing: the hotspot is up.\<close>

definition hosting_state :: portal where
  "hosting_state = initTamaPortal empty_scan init_state"

text \<open>The state after that activation and a deactivation.\<close>

definition deactivated_state :: portal where
  "deactivated_state = initTamaPortal empty_scan hosting_state"

definition long_request :: http_request where
  "long_request =
     \<lparr>req_method = HTTP_POST, req_uri = ''/message'',
      req_args = [(''msg'', replicate 99 CHR ''a'' @ ''<'')]\<rparr>"

definition flood_request :: http_request where
  "flood_request =
     \<lparr>req_method = HTTP_POST, req_uri = ''/message'',
      req_args = [(''msg'', replicate 101 CHR ''<'')]\<rparr>"

definition hello_request :: http_request where
  "hello_request =
     \<lparr>req_method = HTTP_POST, req_uri = ''/message'', req_args = [(''msg'', ''Hello there'')]\<rparr>"

section \<open>Properties\<close>

lemmas radio_defs = emit_def WiFi_mode_def WiFi_softAP_def WiFi_begin_def
  WiFi_scanNetworks_def WiFi_disconnect_def enableSTA_def enableAP_def

subsection \<open>The message store\<close>

lemma substring_from_0: "substring 0 n s = take n s"
  by (simp add: substring_def Let_def)

lemma String_replace_escape:
  "String_replace CHR ''>'' ''&gt;'' (String_replace CHR ''<'' ''&lt;'' s) = escape s"
  by (induction s) (simp_all add: escape_def html_escape_def)

lemma length_escape: "length s \<le> length (escape s)"
  by (induction s) (simp_all add: escape_def html_escape_def)

lemma escape_replicate_plain:
  "c \<noteq> CHR ''<'' \<Longrightarrow> c \<noteq> CHR ''>'' \<Longrightarrow> escape (replicate n c @ s) = replicate n c @ escape s"
  by (induction n) (simp_all add: escape_def html_escape_def)

lemma stored_text:
  "received_message (handle_message now req s) = escape_then_truncate (arg req ''msg'')"
  by (simp add: handle_message_def emit_def Let_def substring_from_0 String_replace_escape
      escape_then_truncate_def)

text \<open>
  C5, as the handler has it: the text stored by a submission is the raw text with \<open><\<close>
  and \<open>>\<close> escaped first and the escaped text cut to 100 characters afterwards, and the
  time of receipt is the current time.
\<close>

theorem submit_escapes_then_truncates:
  "received_message (handle_message now req s) = escape_then_truncate (arg req ''msg'')
   \<and> message_display_time (handle_message now req s) = now"
  by (simp add: handle_message_def emit_def Let_def substring_from_0 String_replace_escape
      escape_then_truncate_def)

text \<open>
  C5 as worded (truncation before escaping) fails on 99 letters followed by \<open><\<close>: the
  handler stores 100 characters ending in \<open>&\<close>, truncating first would store 103.
\<close>

theorem submit_not_truncate_then_escape:
  "received_message (handle_message 7 long_request init_state)
     \<noteq> truncate_then_escape (arg long_request ''msg'')"
proof -
  have "length (received_message (handle_message 7 long_request init_state)) \<le> 100"
    by (simp add: stored_text escape_then_truncate_def)
  moreover have "length (truncate_then_escape (arg long_request ''msg'')) = 103"
    by (simp add: truncate_then_escape_def arg_def long_request_def escape_replicate_plain)
       (simp add: escape_def html_escape_def)
  ultimately show ?thesis by auto
qed

text \<open>
  C6: a submission longer than 100 characters leaves a stored text of exactly 100
  characters.
\<close>

theorem submit_long_text_length:
  "length (arg req ''msg'') > 100 \<Longrightarrow>
     length (received_message (handle_message now req s)) = 100"
  using length_escape [of "arg req ''msg''"]
  by (simp add: stored_text escape_then_truncate_def)

theorem submit_long_text_length_witness:
  "length (arg flood_request ''msg'') > 100
   \<and> length (received_message (handle_message 7 flood_request init_state)) = 100"
proof -
  have h: "length (arg flood_request ''msg'') > 100"
    by (simp add: arg_def flood_request_def)
  show ?thesis
    using h submit_long_text_length [OF h, of 7 init_state] by simp
qed

text \<open>
  C7: a stored non-empty message is shown when the display is drawn 4999 ms after it was
  received (two lines of up to 30 characters cut from it, the message itself kept), and
  when the display is drawn 5001 ms after it was received nothing is shown and the message
  is cleared. The times are 32-bit and wrap.
\<close>

theorem message_visibility_window:
  "received_message s \<noteq> [] \<Longrightarrow>
     displayTama (message_display_time s + MESSAGE_DISPLAY_DURATION - 1) s
       = (Some (substring 0 30 (received_message s), substring 30 60 (received_message s)), s)
     \<and> displayTama (message_display_time s + MESSAGE_DISPLAY_DURATION + 1) s
       = (None, s\<lparr>received_message := []\<rparr>)"
  by (simp add: displayTama_def MESSAGE_DISPLAY_DURATION_def)

theorem message_visibility_window_witness:
  "received_message (handle_message 1000 hello_request init_state) \<noteq> []
   \<and> fst (displayTama 5999 (handle_message 1000 hello_request init_state))
       = Some (''Hello there'', [])
   \<and> fst (displayTama 6001 (handle_message 1000 hello_request init_state)) = None
   \<and> received_message (snd (displayTama 6001 (handle_message 1000 hello_request init_state)))
       = []"
proof -
  let ?s = "handle_message 1000 hello_request init_state"
  have m: "received_message ?s = ''Hello there''"
    by (simp add: handle_message_def hello_request_def arg_def substring_def emit_def)
  have t: "message_display_time ?s = 1000"
    by (simp add: handle_message_def emit_def Let_def)
  have h: "received_message ?s \<noteq> []"
    using m by simp
  show ?thesis
    using message_visibility_window [OF h] m t
    by (simp add: MESSAGE_DISPLAY_DURATION_def substring_def)
qed

subsection \<open>The injector\<close>

lemma connect_wait_connected:
  "d \<le> 5000 \<Longrightarrow> WiFi_connected (Some d) (connect_wait (Some d) t)"
proof (induction "Some d" t rule: connect_wait.induct)
  case (1 t)
  show ?case
  proof (cases "\<not> WiFi_connected (Some d) t \<and> t < 5000")
    case True
    with 1 show ?thesis
      by (simp add: connect_wait.simps [of "Some d" t])
  next
    case False
    with 1(2) show ?thesis
      by (auto simp add: connect_wait.simps [of "Some d" t] WiFi_connected_def)
  qed
qed

lemma never_connected [simp]: "WiFi_connected None t = False"
  by (simp add: WiFi_connected_def)

lemma post_endpoints_fields [simp]:
  "hotspotCreated (post_endpoints nw m1 m2 ps s) = hotspotCreated s"
  "tamaportal_active (post_endpoints nw m1 m2 ps s) = tamaportal_active s"
  "tamaPortalServer (post_endpoints nw m1 m2 ps s) = tamaPortalServer s"
  "tamaDnsServer (post_endpoints nw m1 m2 ps s) = tamaDnsServer s"
  "softAP_ssid (post_endpoints nw m1 m2 ps s) = softAP_ssid s"
  by (induction ps arbitrary: s; simp add: emit_def Let_def)+

lemma post_endpoints_trace:
  "trace (post_endpoints nw m1 m2 ps s) =
     trace s @ map (\<lambda>p. HttpPost (''http://'' @ net_gateway nw @ p) 2000
                         ''application/x-www-form-urlencoded''
                         (''email='' @ m1 @ ''&password='' @ m2 @ ''&username='' @ m1)
                         (net_response nw (''http://'' @ net_gateway nw @ p))) ps"
  by (induction ps arbitrary: s) (simp_all add: emit_def Let_def)

lemma sendFriendlyMessage_fields [simp]:
  "hotspotCreated (sendFriendlyMessage nw s) = hotspotCreated s"
  "tamaportal_active (sendFriendlyMessage nw s) = tamaportal_active s"
  "tamaPortalServer (sendFriendlyMessage nw s) = tamaPortalServer s"
  "tamaDnsServer (sendFriendlyMessage nw s) = tamaDnsServer s"
  "softAP_ssid (sendFriendlyMessage nw s) = softAP_ssid s"
  by (simp_all add: sendFriendlyMessage_def Let_def radio_defs)

lemma sendFriendlyMessage_trace: "\<exists>ys. trace (sendFriendlyMessage nw s) = trace s @ ys"
  by (simp add: sendFriendlyMessage_def Let_def post_endpoints_trace radio_defs)

text \<open>
  C9: when the join to an open candidate succeeds within 5000 ms, the injector's calls are
  the join, then one POST to each of \<open>/post\<close>, \<open>/\<close>, \<open>/login\<close>, \<open>/auth\<close> on the
  gateway, in this order and each with a timeout of 2000 ms, then the disconnect, whatever
  the response codes are.
\<close>

theorem injector_posts_four_endpoints:
  "net_connect_after nw = Some d \<Longrightarrow> d \<le> 5000 \<Longrightarrow>
   trace (sendFriendlyMessage nw s) =
     trace s @ [WiFiBegin (net_ssid nw)] @
     map (\<lambda>p. HttpPost (''http://'' @ net_gateway nw @ p) 2000
                 ''application/x-www-form-urlencoded''
                 (''email='' @ friendlyMessages ! (net_random nw mod 6)
                  @ ''&password='' @ friendlyMessages ! ((net_random nw mod 6 + 1) mod 6)
                  @ ''&username='' @ friendlyMessages ! (net_random nw mod 6))
                 (net_response nw (''http://'' @ net_gateway nw @ p)))
       [''/post'', ''/'', ''/login'', ''/auth'']
     @ [WiFiDisconnect]"
  by (simp add: sendFriendlyMessage_def Let_def connect_wait_connected post_endpoints_trace
      endpoints_def random_range_def radio_defs)

theorem injector_posts_four_endpoints_witness:
  "net_connect_after cafe = Some 300 \<and> (300 :: nat) \<le> 5000
   \<and> length (trace (sendFriendlyMessage cafe init_state)) = 6
   \<and> map (\<lambda>x. case x of HttpPost url t c b r \<Rightarrow> (url, t) | _ \<Rightarrow> ([], 0))
        (trace (sendFriendlyMessage cafe init_state))
      = [([], 0), (''http://192.168.1.1/post'', 2000), (''http://192.168.1.1/'', 2000),
         (''http://192.168.1.1/login'', 2000), (''http://192.168.1.1/auth'', 2000), ([], 0)]"
proof -
  have a: "net_connect_after cafe = Some 300" by (simp add: cafe_def)
  have b: "(300 :: nat) \<le> 5000" by simp
  have c: "trace init_state = []" by (simp add: init_state_def)
  have d: "net_gateway cafe = ''192.168.1.1''" by (simp add: cafe_def)
  show ?thesis
    using a b c d injector_posts_four_endpoints [OF a b, of init_state] by simp
qed

subsection \<open>The host\<close>

lemma create_sets_flag [simp]: "hotspotCreated (createTamaPortalHotspot raw s)"
  by (simp add: createTamaPortalHotspot_def Let_def radio_defs)

lemma create_when_created: "hotspotCreated s \<Longrightarrow> createTamaPortalHotspot raw s = s"
  by (simp add: createTamaPortalHotspot_def)

lemma create_trace: "\<exists>ys. trace (createTamaPortalHotspot raw s) = trace s @ ys"
  by (simp add: createTamaPortalHotspot_def Let_def radio_defs)

lemma create_brings_up:
  "\<not> hotspotCreated s \<Longrightarrow>
     softAP_ssid (createTamaPortalHotspot raw s) \<noteq> None
     \<and> tamaDnsServer (createTamaPortalHotspot raw s) = Some (53, ''*'')
     \<and> tamaPortalServer (createTamaPortalHotspot raw s) = Some 80"
  by (simp add: createTamaPortalHotspot_def Let_def radio_defs)

lemma create_trace_first:
  "\<not> hotspotCreated s \<Longrightarrow>
     trace (createTamaPortalHotspot raw s) =
       trace s @ [WiFiMode WIFI_AP, SoftAPConfig,
                  SoftAP (''TamaPortal-'' @ String_of_nat (random_range 1000 9999 raw)),
                  DnsStart 53 ''*'', ServerBegin 80]"
  by (simp add: createTamaPortalHotspot_def Let_def radio_defs)

lemma create_twice:
  "createTamaPortalHotspot raw2 (createTamaPortalHotspot raw1 s) = createTamaPortalHotspot raw1 s"
  by (simp add: create_when_created)

subsection \<open>The scan cycle\<close>

lemma scan_loop_fields [simp]:
  "hotspotCreated (snd (scan_loop ns f s)) = hotspotCreated s"
  "tamaportal_active (snd (scan_loop ns f s)) = tamaportal_active s"
  "tamaPortalServer (snd (scan_loop ns f s)) = tamaPortalServer s"
  "tamaDnsServer (snd (scan_loop ns f s)) = tamaDnsServer s"
  "softAP_ssid (snd (scan_loop ns f s)) = softAP_ssid s"
  by (induction ns arbitrary: f s; simp)+

lemma scan_loop_found: "fst (scan_loop ns f s) = (f \<or> \<not> no_open ns)"
  by (induction ns arbitrary: f s) (auto simp add: no_open_def)

lemma scan_loop_trace: "\<exists>ys. trace (snd (scan_loop ns f s)) = trace s @ ys"
proof (induction ns arbitrary: f s)
  case Nil
  show ?case by simp
next
  case (Cons nw ns)
  show ?case
  proof (cases "net_auth nw = WIFI_AUTH_OPEN")
    case True
    obtain ys where a: "trace (sendFriendlyMessage nw s) = trace s @ ys"
      using sendFriendlyMessage_trace by blast
    obtain zs where
      "trace (snd (scan_loop ns True (sendFriendlyMessage nw s)))
         = trace (sendFriendlyMessage nw s) @ zs"
      using Cons.IH by blast
    with a True show ?thesis by simp
  next
    case False
    with Cons.IH [of f s] show ?thesis by simp
  qed
qed

lemma take_scanned: "take (nat (scanNetworks e)) (scanned e) = scanned e"
  by (simp add: scanNetworks_def scanned_def split: option.splits)

lemma scanNetworks_0: "scanNetworks e = 0 \<Longrightarrow> scanned e = []"
  by (simp add: scanNetworks_def scanned_def split: option.splits)

lemma scanAndAttack_cases:
  "scanAndAttackPortals e s =
     (if scanNetworks e = 0 then createTamaPortalHotspot (hotspot_random e) (WiFi_scanNetworks s)
      else if no_open (scanned e)
      then emit ScanDelete
             (createTamaPortalHotspot (hotspot_random e)
                (snd (scan_loop (scanned e) False (WiFi_scanNetworks s))))
      else emit ScanDelete (snd (scan_loop (scanned e) False (WiFi_scanNetworks s))))"
  using scan_loop_found [of "scanned e" False "WiFi_scanNetworks s"]
  by (simp add: scanAndAttackPortals_def Let_def split_beta take_scanned)

lemma WiFi_scanNetworks_flag [simp]:
  "hotspotCreated (WiFi_scanNetworks s) = hotspotCreated s"
  by (simp add: radio_defs)

lemma emit_flag [simp]: "hotspotCreated (emit x s) = hotspotCreated s"
  by (simp add: emit_def)

lemma scanAndAttack_trace:
  "\<exists>ys. trace (scanAndAttackPortals e s) = trace s @ ScanNetworks # ys"
proof -
  let ?s0 = "WiFi_scanNetworks s"
  let ?l = "snd (scan_loop (scanned e) False ?s0)"
  have s0: "trace ?s0 = trace s @ [ScanNetworks]"
    by (simp add: radio_defs)
  obtain xs where xs: "trace (createTamaPortalHotspot (hotspot_random e) ?s0) = trace ?s0 @ xs"
    using create_trace by blast
  obtain ys where ys: "trace ?l = trace ?s0 @ ys"
    using scan_loop_trace by blast
  obtain zs where zs: "trace (createTamaPortalHotspot (hotspot_random e) ?l) = trace ?l @ zs"
    using create_trace by blast
  from s0 xs ys zs show ?thesis
    by (simp add: scanAndAttack_cases emit_def)
qed

lemma fallback_flag:
  "hotspotCreated (scanAndAttackPortals e s) = (hotspotCreated s \<or> no_open (scanned e))"
proof (cases "scanNetworks e = 0")
  case True
  then have "no_open (scanned e)"
    by (simp add: scanNetworks_0 no_open_def)
  with True show ?thesis
    by (simp add: scanAndAttack_cases)
next
  case False
  then show ?thesis
    by (simp add: scanAndAttack_cases)
qed

lemma fallback_brings_up:
  assumes "no_open (scanned e)" and "\<not> hotspotCreated s"
  shows "softAP_ssid (scanAndAttackPortals e s) \<noteq> None
         \<and> tamaDnsServer (scanAndAttackPortals e s) = Some (53, ''*'')
         \<and> tamaPortalServer (scanAndAttackPortals e s) = Some 80"
proof -
  let ?a = "WiFi_scanNetworks s"
  let ?b = "snd (scan_loop (scanned e) False ?a)"
  have a: "\<not> hotspotCreated ?a" and b: "\<not> hotspotCreated ?b"
    using assms(2) by simp_all
  show ?thesis
  proof (cases "scanNetworks e = 0")
    case True
    with create_brings_up [OF a, of "hotspot_random e"] show ?thesis
      by (simp add: scanAndAttack_cases)
  next
    case False
    with assms(1) create_brings_up [OF b, of "hotspot_random e"] show ?thesis
      by (simp add: scanAndAttack_cases emit_def)
  qed
qed

text \<open>
  C3, as the code has it: after a scan cycle the hotspot flag is set exactly when it was
  set before or no scanned network is open (the scan found nothing, failed, or found
  secured networks only); in that case a hotspot that had never been created is brought up
  with its access point, DNS resolver and HTTP server. A cycle with an open network leaves
  the flag as it was, whether or not an injection connected.
\<close>

theorem fallback_iff_no_open_network:
  "hotspotCreated (scanAndAttackPortals e s) = (hotspotCreated s \<or> no_open (scanned e))
   \<and> (no_open (scanned e) \<and> \<not> hotspotCreated s \<longrightarrow>
        softAP_ssid (scanAndAttackPortals e s) \<noteq> None
        \<and> tamaDnsServer (scanAndAttackPortals e s) = Some (53, ''*'')
        \<and> tamaPortalServer (scanAndAttackPortals e s) = Some 80)"
  using fallback_flag fallback_brings_up by blast

theorem fallback_iff_no_open_network_witness:
  "no_open (scanned empty_scan) \<and> \<not> hotspotCreated init_state
   \<and> hotspotCreated (scanAndAttackPortals empty_scan init_state)
   \<and> softAP_ssid (scanAndAttackPortals empty_scan init_state) \<noteq> None
   \<and> tamaDnsServer (scanAndAttackPortals empty_scan init_state) = Some (53, ''*'')
   \<and> tamaPortalServer (scanAndAttackPortals empty_scan init_state) = Some 80"
proof -
  have a: "no_open (scanned empty_scan)"
    by (simp add: no_open_def scanned_def empty_scan_def)
  have b: "\<not> hotspotCreated init_state"
    by (simp add: init_state_def)
  show ?thesis
    using a b fallback_iff_no_open_network [of empty_scan init_state] by simp
qed

text \<open>
  C3 as worded fails when the only open candidate does not connect: the cycle joins,
  gives up, posts nothing, and creates no hotspot.
\<close>

theorem failed_injection_no_fallback:
  "net_auth cafe_out_of_reach = WIFI_AUTH_OPEN
   \<and> \<not> WiFi_connected (net_connect_after cafe_out_of_reach) 5000
   \<and> trace (scanAndAttackPortals (cafe_scan cafe_out_of_reach) init_state)
       = [ScanNetworks, WiFiBegin ''CafeWifi'', ScanDelete]
   \<and> \<not> hotspotCreated (scanAndAttackPortals (cafe_scan cafe_out_of_reach) init_state)
   \<and> host_torn_down (scanAndAttackPortals (cafe_scan cafe_out_of_reach) init_state)"
  by (simp add: cafe_out_of_reach_def cafe_def cafe_scan_def scanAndAttackPortals_def
      scanNetworks_def scanned_def Let_def sendFriendlyMessage_def radio_defs init_state_def
      host_torn_down_def)

subsection \<open>The controller\<close>

lemma handleTamaPortal_inactive: "\<not> tamaportal_active s \<Longrightarrow> handleTamaPortal e now s = s"
  by (simp add: handleTamaPortal_def)

lemma hosting_state_eq:
  "hosting_state =
     \<lparr> tamaportal_active = True, last_portal_scan = 0, received_message = [],
       message_display_time = 0, hotspotCreated = True, tamaPortalServer = Some 80,
       tamaDnsServer = Some (53, ''*''), time_bypass_complete = False, time_bypass_start = 0,
       prev_clean_selected = False, wifi_mode = WIFI_AP,
       softAP_ssid = Some (''TamaPortal-'' @ String_of_nat (random_range 1000 9999 4242)),
       trace = [ScanNetworks, WiFiMode WIFI_AP, SoftAPConfig,
                SoftAP (''TamaPortal-'' @ String_of_nat (random_range 1000 9999 4242)),
                DnsStart 53 ''*'', ServerBegin 80] \<rparr>"
  by (simp add: hosting_state_def initTamaPortal_def init_state_def scanAndAttackPortals_def
      scanNetworks_def empty_scan_def Let_def createTamaPortalHotspot_def radio_defs)

text \<open>
  C10, as the code has it: on a tick with the Portal active, a scan cycle runs exactly
  when the 32-bit difference between the current time and the time of the last scan is
  strictly greater than 30000 ms.
\<close>

theorem scan_iff_interval_exceeded:
  "tamaportal_active s \<Longrightarrow>
     scan_cycle_ran s (handleTamaPortal e now s) = (30000 < now - last_portal_scan s)"
proof -
  assume a: "tamaportal_active s"
  obtain ys where "trace (scanAndAttackPortals e s) = trace s @ ScanNetworks # ys"
    using scanAndAttack_trace by blast
  then have "scan_cycle_ran s ((scanAndAttackPortals e s)\<lparr>last_portal_scan := now\<rparr>)"
    by (simp add: scan_cycle_ran_def)
  with a show ?thesis
    by (simp add: handleTamaPortal_def PORTAL_SCAN_INTERVAL_def scan_cycle_ran_def)
qed

theorem scan_iff_interval_exceeded_witness:
  "tamaportal_active hosting_state
   \<and> scan_cycle_ran hosting_state (handleTamaPortal empty_scan 30001 hosting_state)
   \<and> (30000 :: millis) < 30001 - last_portal_scan hosting_state"
proof -
  have h: "tamaportal_active hosting_state" by (simp add: hosting_state_eq)
  have l: "last_portal_scan hosting_state = 0" by (simp add: hosting_state_eq)
  show ?thesis
    using h l scan_iff_interval_exceeded [OF h, of empty_scan 30001] by simp
qed

text \<open>
  C10 as worded fails at equality: 30000 ms after the last scan the tick does nothing.
\<close>

theorem no_scan_at_exact_interval:
  "tamaportal_active hosting_state
   \<and> 30000 - last_portal_scan hosting_state \<ge> PORTAL_SCAN_INTERVAL
   \<and> handleTamaPortal empty_scan 30000 hosting_state = hosting_state
   \<and> \<not> scan_cycle_ran hosting_state (handleTamaPortal empty_scan 30000 hosting_state)"
  by (simp add: hosting_state_eq handleTamaPortal_def PORTAL_SCAN_INTERVAL_def
      scan_cycle_ran_def)

text \<open>
  C2, as the code has it: a call of \<open>initTamaPortal\<close> while the Portal is active
  clears the active flag, switches the radio to station mode, which takes the access point
  down, and disconnects. The DNS resolver and the HTTP server are left as they are,
  neither stopped nor freed; the handler no longer serves them, since it serves them only
  while the Portal is active. The code has no mode variable.
\<close>

theorem deactivation_leaves_servers:
  "tamaportal_active s \<Longrightarrow>
     \<not> tamaportal_active (initTamaPortal e s)
     \<and> wifi_mode (initTamaPortal e s) = WIFI_STA
     \<and> softAP_ssid (initTamaPortal e s) = None
     \<and> tamaDnsServer (initTamaPortal e s) = tamaDnsServer s
     \<and> tamaPortalServer (initTamaPortal e s) = tamaPortalServer s
     \<and> hotspotCreated (initTamaPortal e s) = hotspotCreated s
     \<and> trace (initTamaPortal e s) = trace s @ [WiFiMode WIFI_STA, WiFiDisconnect]
     \<and> trace (hal_handler h (initTamaPortal e s)) = trace (initTamaPortal e s)"
  by (simp add: initTamaPortal_def radio_defs hal_handler_def Let_def handleTamaPortal_inactive)

theorem deactivation_leaves_servers_witness:
  "tamaportal_active hosting_state
   \<and> softAP_ssid hosting_state \<noteq> None
   \<and> softAP_ssid (initTamaPortal empty_scan hosting_state) = None
   \<and> tamaDnsServer (initTamaPortal empty_scan hosting_state) = Some (53, ''*'')
   \<and> tamaPortalServer (initTamaPortal empty_scan hosting_state) = Some 80"
proof -
  have h: "tamaportal_active hosting_state" by (simp add: hosting_state_eq)
  have d: "tamaDnsServer hosting_state = Some (53, ''*'')" by (simp add: hosting_state_eq)
  have p: "tamaPortalServer hosting_state = Some 80" by (simp add: hosting_state_eq)
  have a: "softAP_ssid hosting_state \<noteq> None" by (simp add: hosting_state_eq)
  show ?thesis
    using h d p a deactivation_leaves_servers [OF h, of empty_scan] by simp
qed

text \<open>
  C2 as worded fails on a deactivation while hosting: the DNS resolver and the HTTP server
  are still there afterwards.
\<close>

theorem deactivation_keeps_dns_and_http:
  "tamaportal_active hosting_state
   \<and> \<not> host_torn_down (initTamaPortal empty_scan hosting_state)"
  by (simp add: hosting_state_eq initTamaPortal_def host_torn_down_def radio_defs)

subsection \<open>The hotspot flag\<close>

lemma scanAndAttack_keeps: "hotspotCreated s \<Longrightarrow> hotspotCreated (scanAndAttackPortals e s)"
  by (simp add: fallback_flag)

lemma initTamaPortal_keeps: "hotspotCreated s \<Longrightarrow> hotspotCreated (initTamaPortal e s)"
  by (simp add: initTamaPortal_def scanAndAttack_keeps radio_defs)

lemma handleTamaPortal_keeps: "hotspotCreated s \<Longrightarrow> hotspotCreated (handleTamaPortal e now s)"
  by (simp add: handleTamaPortal_def scanAndAttack_keeps)

lemma handleClient_flag [simp]: "hotspotCreated (handleClient now p s) = hotspotCreated s"
  by (simp add: handleClient_def handle_message_def emit_def Let_def split: option.splits)

lemma processNextRequest_flag [simp]:
  "hotspotCreated (processNextRequest q s) = hotspotCreated s"
  by (simp add: processNextRequest_def emit_def split: option.splits)

lemma hal_handler_keeps: "hotspotCreated s \<Longrightarrow> hotspotCreated (hal_handler e s)"
  by (simp add: hal_handler_def Let_def handleTamaPortal_keeps)

lemma displayTama_flag [simp]: "hotspotCreated (snd (displayTama now s)) = hotspotCreated s"
  by (simp add: displayTama_def)

lemma perform_keeps: "hotspotCreated s \<Longrightarrow> hotspotCreated (perform x s)"
  by (cases x)
     (simp_all add: initTamaPortal_keeps handleTamaPortal_keeps scanAndAttack_keeps
        hal_handler_keeps)

lemma perform_all_keeps: "hotspotCreated s \<Longrightarrow> hotspotCreated (perform_all xs s)"
  by (induction xs arbitrary: s) (simp_all add: perform_keeps)

text \<open>
  C4: once the hotspot flag is set, it stays set through every sequence of operations of
  the subsystem, deactivations included, and a call of \<open>createTamaPortalHotspot\<close> after
  any such sequence returns the state unchanged: no access point, DNS resolver or HTTP
  server is brought up again.
\<close>

theorem hotspotCreated_monotone:
  "hotspotCreated s \<Longrightarrow>
     hotspotCreated (perform_all xs s)
     \<and> createTamaPortalHotspot raw (perform_all xs s) = perform_all xs s"
  by (simp add: perform_all_keeps create_when_created)

theorem hotspotCreated_monotone_witness:
  "hotspotCreated hosting_state
   \<and> hotspotCreated
       (perform_all [InitTamaPortal empty_scan, InitTamaPortal empty_scan] hosting_state)
   \<and> createTamaPortalHotspot 7
       (perform_all [InitTamaPortal empty_scan, InitTamaPortal empty_scan] hosting_state)
     = perform_all [InitTamaPortal empty_scan, InitTamaPortal empty_scan] hosting_state"
proof -
  have h: "hotspotCreated hosting_state"
    by (simp add: hosting_state_eq)
  show ?thesis
    using h hotspotCreated_monotone
              [OF h, of "[InitTamaPortal empty_scan, InitTamaPortal empty_scan]" 7]
    by simp
qed

text \<open>
  C8 fails on the code after a deactivation. The second of two calls in a row is a no-op in
  every state, but so is the first once the hotspot flag is set: the guard returns with the
  comment that the hotspot is already running, while the deactivation has taken the access
  point down and nothing resets the flag. From the state after one activation and one
  deactivation, two calls in a row ask nothing of the radio and leave the device in station
  mode with no access point.
\<close>

theorem start_twice_after_deactivation_no_access_point:
  "hotspotCreated deactivated_state
   \<and> createTamaPortalHotspot 9 (createTamaPortalHotspot 5 deactivated_state) = deactivated_state
   \<and> trace (createTamaPortalHotspot 9 (createTamaPortalHotspot 5 deactivated_state))
       = trace deactivated_state
   \<and> wifi_mode (createTamaPortalHotspot 9 (createTamaPortalHotspot 5 deactivated_state))
       = WIFI_STA
   \<and> softAP_ssid (createTamaPortalHotspot 9 (createTamaPortalHotspot 5 deactivated_state))
       = None"
proof -
  have f: "hotspotCreated deactivated_state"
    by (simp add: deactivated_state_def hosting_state_eq initTamaPortal_def radio_defs)
  have m: "wifi_mode deactivated_state = WIFI_STA"
    by (simp add: deactivated_state_def hosting_state_eq initTamaPortal_def radio_defs)
  have a: "softAP_ssid deactivated_state = None"
    by (simp add: deactivated_state_def hosting_state_eq initTamaPortal_def radio_defs)
  from f m a show ?thesis
    by (simp add: create_when_created)
qed

subsection \<open>The compiled program\<close>

lemma hal_handler_quiescent: "quiescent s \<Longrightarrow> quiescent (hal_handler e s)"
  by (simp add: quiescent_def hal_handler_def Let_def handleTamaPortal_inactive)

lemma displayTama_quiescent: "quiescent s \<Longrightarrow> quiescent (snd (displayTama now s))"
  by (simp add: quiescent_def displayTama_def)

lemma run_quiescent: "quiescent s \<Longrightarrow> quiescent (run cs s)"
proof (induction cs arbitrary: s)
  case Nil
  then show ?case by simp
next
  case (Cons c cs)
  then show ?case
    by (cases c) (simp_all add: hal_handler_quiescent displayTama_quiescent)
qed

text \<open>
  C1: in every execution of the compiled program the Portal stays inactive,
  \<open>handleTamaPortal\<close> returns without doing anything, nothing was ever asked of the
  radio, the HTTP client or the servers (no scan, no join, no POST, no hotspot), and the
  hotspot flag and both server pointers are as at start.
\<close>

theorem portal_never_runs:
  "\<not> tamaportal_active (run cs init_state)
   \<and> handleTamaPortal e now (run cs init_state) = run cs init_state
   \<and> trace (run cs init_state) = []
   \<and> \<not> hotspotCreated (run cs init_state)
   \<and> tamaPortalServer (run cs init_state) = None
   \<and> tamaDnsServer (run cs init_state) = None"
proof -
  have "quiescent init_state"
    by (simp add: quiescent_def init_state_def)
  then have "quiescent (run cs init_state)"
    by (rule run_quiescent)
  then show ?thesis
    by (simp add: quiescent_def handleTamaPortal_inactive)
qed

end
